theory Spec2Isabelle
  imports Main "HOL-Library.AList"
begin

section \<open>Python values\<close>

text \<open>
  The module \<^verbatim>\<open>library/l3fw_cluster.py\<close> reconciles a playbook (a parsed YAML
  document) with a firewall cluster held by a management server. This theory embeds the
  functions of that module which decide what is validated, compared and sent.

  A scalar of the playbook is \<^verbatim>\<open>None\<close>, a boolean, an integer or a string.
  \<^verbatim>\<open>str\<close> of a scalar is modelled by \<open>py_str\<close>; floats are left out.
\<close>

datatype scalar = SNone | SBool bool | SInt int | SStr string

definition digit_char :: "nat \<Rightarrow> char" where
  "digit_char d = ''0123456789'' ! d"

fun dec_nat :: "nat \<Rightarrow> string" where
  "dec_nat n = (if n < 10 then [digit_char n] else dec_nat (n div 10) @ [digit_char (n mod 10)])"

declare dec_nat.simps [simp del]

definition dec_int :: "int \<Rightarrow> string" where
  "dec_int i = (if i < 0 then CHR ''-'' # dec_nat (nat (- i)) else dec_nat (nat i))"

fun py_str :: "scalar \<Rightarrow> string" where
  "py_str SNone = ''None''"
| "py_str (SBool b) = (if b then ''True'' else ''False'')"
| "py_str (SInt i) = dec_int i"
| "py_str (SStr s) = s"

section \<open>The desired-state model: YamlInterface and Interfaces\<close>

text \<open>
  A node of an interface is a dict; the keys the module reads are \<^verbatim>\<open>address\<close>,
  \<^verbatim>\<open>network_value\<close> and \<^verbatim>\<open>nodeid\<close>. An interface definition of the playbook is a
  dict as well: \<open>scalar_items\<close> holds its items other than \<^verbatim>\<open>nodes\<close> (scalars), and
  \<open>nodes_item\<close> the item \<^verbatim>\<open>nodes\<close> when the dict has one.
\<close>

type_synonym node = "(string \<times> scalar) list"

record interface_def =
  scalar_items :: "(string \<times> scalar) list"
  nodes_item :: "node list option"

text \<open>
  An attribute of a \<^verbatim>\<open>YamlInterface\<close> object holds a scalar or a list of nodes; the
  object is its attribute dict (\<^verbatim>\<open>vars(self)\<close>), an association list.
\<close>

datatype attr = AScalar scalar | ANodes "node list"

type_synonym obj = "(string \<times> attr) list"

text \<open>
  \<^verbatim>\<open>self.fail(msg=...)\<close> ends the run with a message (the validation error of the
  specification). \<open>failure\<close> has one constructor for each message of the checks that
  \<^verbatim>\<open>exec_module\<close> makes before its first mutating call; a message that formats a value
  carries that value (for an interface, the \<^verbatim>\<open>interface_id\<close> and \<^verbatim>\<open>vlan_id\<close> that
  \<^verbatim>\<open>__repr__\<close> prints).
\<close>

datatype failure =
    No_interface_given
  | Interface_id_required
  | Node_missing_field "attr \<times> attr"
  | Management_not_defined string
  | Invalid_antispoofing_type string
  | Missing_antispoofing_elements
  | Invalid_announced_type string
  | Announced_requires_name
  | Missing_announced_elements
  | Autonomous_system_requires_name_and_number
  | Peering_requires_name
  | Peering_requires_next_hop
  | Missing_peering_elements

text \<open>
  What ends a function early: an exception of the Python run time, or
  \<^verbatim>\<open>self.fail\<close>.
\<close>

datatype error =
    AttributeError string
  | UnboundLocalError string
  | TypeError string
  | Fail failure

fun truthy :: "attr \<Rightarrow> bool" where
  "truthy (AScalar SNone) = False"
| "truthy (AScalar (SBool b)) = b"
| "truthy (AScalar (SInt i)) = (i \<noteq> 0)"
| "truthy (AScalar (SStr s)) = (s \<noteq> [])"
| "truthy (ANodes ns) = (ns \<noteq> [])"

definition getattr :: "obj \<Rightarrow> string \<Rightarrow> error + attr" where
  "getattr ob n = (case map_of ob n of None \<Rightarrow> Inl (AttributeError n) | Some v \<Rightarrow> Inr v)"

definition setattr :: "obj \<Rightarrow> string \<Rightarrow> attr \<Rightarrow> obj" where
  "setattr ob n v = AList.update n v ob"

definition delattr :: "obj \<Rightarrow> string \<Rightarrow> error + obj" where
  "delattr ob n =
     (case map_of ob n of None \<Rightarrow> Inl (AttributeError n) | Some _ \<Rightarrow> Inr (AList.delete n ob))"

text \<open>
  \<^verbatim>\<open>YamlInterface.__init__\<close>: seven attributes are preset, every item of the dict
  is stored (\<^verbatim>\<open>str(value)\<close> unless the name is \<^verbatim>\<open>nodes\<close>), and
  \<^verbatim>\<open>cvi_mode\<close> is derived from \<^verbatim>\<open>cluster_virtual\<close> last.
\<close>

definition init_attrs :: obj where
  "init_attrs =
     [(''cluster_virtual'', AScalar SNone), (''interface_id'', AScalar SNone),
      (''macaddress'', AScalar SNone), (''network_value'', AScalar SNone),
      (''vlan_id'', AScalar SNone), (''zone_ref'', AScalar SNone), (''nodes'', ANodes [])]"

definition store_item :: "string \<times> scalar \<Rightarrow> obj \<Rightarrow> obj" where
  "store_item item ob =
     (if fst item \<noteq> ''nodes'' then setattr ob (fst item) (AScalar (SStr (py_str (snd item))))
      else setattr ob (fst item) (AScalar (snd item)))"

definition YamlInterface :: "interface_def \<Rightarrow> obj" where
  "YamlInterface d =
     (let ob1 = fold store_item (scalar_items d) init_attrs;
          ob2 = (case nodes_item d of None \<Rightarrow> ob1 | Some ns \<Rightarrow> setattr ob1 ''nodes'' (ANodes ns));
          cv = (case map_of ob2 ''cluster_virtual'' of None \<Rightarrow> False | Some v \<Rightarrow> truthy v)
      in setattr ob2 ''cvi_mode'' (AScalar (if cv then SStr ''packetdispatch'' else SNone)))"

text \<open>\<^verbatim>\<open>is_vlan\<close> reads \<^verbatim>\<open>self.vlan_id\<close>, which raises when the attribute is gone.\<close>

definition is_vlan :: "obj \<Rightarrow> error + bool" where
  "is_vlan ob = (case getattr ob ''vlan_id'' of Inl e \<Rightarrow> Inl e | Inr v \<Rightarrow> Inr (truthy v))"

text \<open>
  \<^verbatim>\<open>as_dict\<close> returns \<^verbatim>\<open>vars(self)\<close>, the attribute dict of the object itself, after
  deleting \<^verbatim>\<open>vlan_id\<close> from it when the interface is not a VLAN. The result is the pair
  of the returned dict and the object as the call leaves it.
\<close>

definition as_dict :: "obj \<Rightarrow> error + (obj \<times> obj)" where
  "as_dict ob =
     (case is_vlan ob of
        Inl e \<Rightarrow> Inl e
      | Inr v \<Rightarrow>
          (if \<not> v then (case delattr ob ''vlan_id'' of Inl e \<Rightarrow> Inl e | Inr ob' \<Rightarrow> Inr (ob', ob'))
           else Inr (ob, ob)))"

text \<open>
  \<^verbatim>\<open>__repr__\<close> formats \<^verbatim>\<open>interface_id\<close> and \<^verbatim>\<open>vlan_id\<close>; the model keeps the two
  values it reads.
\<close>

definition repr_interface :: "obj \<Rightarrow> error + (attr \<times> attr)" where
  "repr_interface ob =
     (case getattr ob ''interface_id'' of
        Inl e \<Rightarrow> Inl e
      | Inr i \<Rightarrow> (case getattr ob ''vlan_id'' of Inl e \<Rightarrow> Inl e | Inr v \<Rightarrow> Inr (i, v)))"

text \<open>
  \<^verbatim>\<open>Interfaces\<close> wraps the list of interface definitions; iterating it builds a fresh
  \<^verbatim>\<open>YamlInterface\<close> for every definition. An attribute read that cannot fail (the
  attribute is preset by the constructor) is \<open>attr_of\<close>.
\<close>

definition attr_of :: "obj \<Rightarrow> string \<Rightarrow> attr" where
  "attr_of ob n = (case map_of ob n of None \<Rightarrow> AScalar SNone | Some v \<Rightarrow> v)"

definition Interfaces_iter :: "interface_def list \<Rightarrow> obj list" where
  "Interfaces_iter ds = map YamlInterface ds"

definition vlan_ids :: "interface_def list \<Rightarrow> attr list" where
  "vlan_ids ds = [attr_of itf ''vlan_id''. itf \<leftarrow> Interfaces_iter ds, truthy (attr_of itf ''vlan_id'')]"

definition get_vlan :: "interface_def list \<Rightarrow> scalar \<Rightarrow> obj option" where
  "get_vlan ds vlan_id = find (\<lambda>itf. attr_of itf ''vlan_id'' = AScalar vlan_id) (Interfaces_iter ds)"

definition Interfaces_get :: "interface_def list \<Rightarrow> scalar \<Rightarrow> obj option" where
  "Interfaces_get ds interface_id =
     find (\<lambda>itf. attr_of itf ''interface_id'' = AScalar (SStr (py_str interface_id)))
       (Interfaces_iter ds)"

text \<open>The scalar fields of an interface definition that the module reads.\<close>

definition scalar_field_names :: "string list" where
  "scalar_field_names =
     [''interface_id'', ''vlan_id'', ''cluster_virtual'', ''network_value'', ''macaddress'',
      ''zone_ref'']"

section \<open>Calls to the management server\<close>

text \<open>
  The reconcilers act through calls on the engine object of the \<^verbatim>\<open>smc\<close> library. A
  run is modelled by the list of mutating calls it issues, in order, with the
  \<^verbatim>\<open>changed\<close> flag it computes. A routing entry (\<^verbatim>\<open>for route in engine.routing\<close>)
  has a name and the networks below it; a network carries the flag \<^verbatim>\<open>invalid\<close> set by
  the server. \<open>route_href\<close> and \<open>network_href\<close> identify the elements.
\<close>

record route_network =
  network_href :: string
  invalid :: bool

record route =
  route_href :: string
  route_name :: string
  networks :: "route_network list"

datatype call =
    DefaultNat_enable | DefaultNat_disable
  | FileReputation_enable | FileReputation_disable
  | Antivirus_enable | Antivirus_disable
  | Dns_reset
  | Dns_add "string list"
  | Network_delete route route_network
  | Route_delete route
  | Add_bgp_peering string "string option" "string option"

section \<open>General settings: update_general\<close>

text \<open>
  The playbook may leave \<^verbatim>\<open>default_nat\<close>, \<^verbatim>\<open>antivirus\<close> and
  \<^verbatim>\<open>file_reputation\<close> out. The argument specification of the module
  (\<^verbatim>\<open>module_args\<close> in \<^verbatim>\<open>StonesoftCluster.__init__\<close>) declares each of them with
  \<^verbatim>\<open>default=False, type='bool'\<close> and \<^verbatim>\<open>domain_server_address\<close> with
  \<^verbatim>\<open>default=[]\<close>; \<open>module_params\<close> is the parameter set \<^verbatim>\<open>exec_module\<close> receives,
  with these defaults filled in.
\<close>

record general_playbook =
  pb_default_nat :: "bool option"
  pb_file_reputation :: "bool option"
  pb_antivirus :: "bool option"
  pb_domain_server_address :: "string list option"

record general_params =
  default_nat :: "bool option"
  file_reputation :: "bool option"
  antivirus :: "bool option"
  domain_server_address :: "string list"

definition arg_default :: "'a \<Rightarrow> 'a option \<Rightarrow> 'a" where
  "arg_default dflt given = (case given of None \<Rightarrow> dflt | Some v \<Rightarrow> v)"

definition module_params :: "general_playbook \<Rightarrow> general_params" where
  "module_params pb =
     \<lparr>default_nat = Some (arg_default False (pb_default_nat pb)),
      file_reputation = Some (arg_default False (pb_file_reputation pb)),
      antivirus = Some (arg_default False (pb_antivirus pb)),
      domain_server_address = arg_default [] (pb_domain_server_address pb)\<rparr>"

text \<open>What \<^verbatim>\<open>update_general\<close> reads of the engine.\<close>

record engine_general =
  default_nat_status :: bool
  file_reputation_status :: bool
  antivirus_status :: bool
  dns :: "string list"

text \<open>
  One of the three blocks of \<^verbatim>\<open>update_general\<close>: \<^verbatim>\<open>if self.x is not None\<close>, then
  enable when the status is off and the value is true, disable when the status is on and
  the value is false. The state is the \<^verbatim>\<open>changed\<close> flag and the calls issued so far.
\<close>

definition toggle :: "bool option \<Rightarrow> bool \<Rightarrow> call \<Rightarrow> call \<Rightarrow> bool \<times> call list \<Rightarrow> bool \<times> call list" where
  "toggle desired status en dis st =
     (case desired of
        None \<Rightarrow> st
      | Some d \<Rightarrow>
          (if \<not> status \<and> d then (True, snd st @ [en])
           else if status \<and> \<not> d then (True, snd st @ [dis])
           else st))"

text \<open>\<^verbatim>\<open>set(a) ^ set(b)\<close>, the symmetric difference of two Python sets.\<close>

definition sym_diff :: "'a set \<Rightarrow> 'a set \<Rightarrow> 'a set" where
  "sym_diff A B = (A - B) \<union> (B - A)"

definition update_dns :: "string list \<Rightarrow> string list \<Rightarrow> bool \<times> call list \<Rightarrow> bool \<times> call list" where
  "update_dns desired current st =
     (if desired \<noteq> [] then
        (if sym_diff (set current) (set desired) \<noteq> {}
         then (True, snd st @ [Dns_reset, Dns_add desired])
         else st)
      else st)"

definition update_general :: "general_params \<Rightarrow> engine_general \<Rightarrow> bool \<times> call list" where
  "update_general p e =
     update_dns (domain_server_address p) (dns e)
       (toggle (antivirus p) (antivirus_status e) Antivirus_enable Antivirus_disable
         (toggle (file_reputation p) (file_reputation_status e)
            FileReputation_enable FileReputation_disable
           (toggle (default_nat p) (default_nat_status e) DefaultNat_enable DefaultNat_disable
              (False, []))))"

text \<open>The calls that change the DNS entries of the engine.\<close>

fun is_dns_call :: "call \<Rightarrow> bool" where
  "is_dns_call Dns_reset = True"
| "is_dns_call (Dns_add _) = True"
| "is_dns_call _ = False"

text \<open>
  The calls of the three feature blocks of \<^verbatim>\<open>update_general\<close> in closed form, used to
  state what the function issues.
\<close>

definition toggle_calls :: "general_params \<Rightarrow> engine_general \<Rightarrow> call list" where
  "toggle_calls p e =
     (if default_nat p = Some True \<and> \<not> default_nat_status e then [DefaultNat_enable]
      else if default_nat p = Some False \<and> default_nat_status e then [DefaultNat_disable] else []) @
     (if file_reputation p = Some True \<and> \<not> file_reputation_status e then [FileReputation_enable]
      else if file_reputation p = Some False \<and> file_reputation_status e
      then [FileReputation_disable] else []) @
     (if antivirus p = Some True \<and> \<not> antivirus_status e then [Antivirus_enable]
      else if antivirus p = Some False \<and> antivirus_status e then [Antivirus_disable] else [])"

section \<open>Route cleanup: remove_routes\<close>

text \<open>
  For every interface identifier of \<^verbatim>\<open>routes_to_remove\<close> and every routing entry named
  \<^verbatim>\<open>'VLAN {}'.format(int_id)\<close>: when the entry has more than one network, the networks
  flagged invalid are deleted one by one, otherwise the entry is deleted. \<open>routing\<close> is
  what the iteration over \<^verbatim>\<open>engine.routing\<close> yields; the result is the list of the
  delete calls, in the order of the loops.
\<close>

definition vlan_route_name :: "string \<Rightarrow> string" where
  "vlan_route_name int_id = ''VLAN '' @ int_id"

definition remove_route :: "string \<Rightarrow> route \<Rightarrow> call list" where
  "remove_route int_id r =
     (if route_name r = vlan_route_name int_id then
        (if length (networks r) > 1
         then map (Network_delete r) (filter invalid (networks r))
         else [Route_delete r])
      else [])"

definition remove_routes :: "route list \<Rightarrow> string list \<Rightarrow> call list" where
  "remove_routes routing routes_to_remove =
     concat (map (\<lambda>int_id. concat (map (remove_route int_id) routing)) routes_to_remove)"

section \<open>The element cache\<close>

text \<open>
  Modelled from the spec: \<^verbatim>\<open>Cache\<close> comes from
  \<^verbatim>\<open>ansible.module_utils.stonesoft_util\<close>, which is not part of the module. The
  specification describes it as a mapping from a type and a name to a resolved handle,
  with the set of the pairs that failed to resolve. It is a parameter here, the function
  \<open>cg\<close> that gives the \<^verbatim>\<open>href\<close> of the element of a type and name, if the server has
  one. \<^verbatim>\<open>cache.get(typeof, name)\<close> is \<open>cache_get cg typeof name\<close>; the name is
  \<^verbatim>\<open>None\<close> when it comes from a \<^verbatim>\<open>dict.get\<close> of a key that is absent, and no
  element has that name.
\<close>

type_synonym cache = "string \<Rightarrow> string \<Rightarrow> string option"

definition cache_get :: "cache \<Rightarrow> string \<Rightarrow> string option \<Rightarrow> string option" where
  "cache_get cg typeof name = (case name of None \<Rightarrow> None | Some n \<Rightarrow> cg typeof n)"

section \<open>BGP peering: update_bgp_peering\<close>

text \<open>
  \<^verbatim>\<open>routing.bgp_peerings\<close> yields tuples \<^verbatim>\<open>(_, net, peering)\<close> of which the function
  reads \<^verbatim>\<open>net.ip\<close> and \<^verbatim>\<open>peering.name\<close>. \<open>peering_dict\<close> is an entry of
  \<^verbatim>\<open>bgp_peering\<close> in the playbook after \<^verbatim>\<open>name\<close> was popped from it; a field is
  \<open>None\<close> when the key is absent.
\<close>

record attached_peering =
  net_ip :: string
  peering_name :: string

record peering_dict =
  pd_external_bgp_peer :: "string option"
  pd_engine :: "string option"
  pd_interface_id :: "string option"
  pd_network :: "string option"

text \<open>
  The next hop: \<^verbatim>\<open>extpeer\<close> is bound by one of the two branches, to the element of the
  cache or to \<^verbatim>\<open>None\<close>, and stays unbound when the entry has neither key.
\<close>

definition extpeer_of :: "cache \<Rightarrow> peering_dict \<Rightarrow> string option option" where
  "extpeer_of cg pd =
     (if pd_external_bgp_peer pd \<noteq> None
      then Some (cache_get cg ''external_bgp_peer'' (pd_external_bgp_peer pd))
      else if pd_engine pd \<noteq> None
      then Some (cache_get cg ''single_fw,fw_cluster'' (pd_engine pd))
      else None)"

text \<open>
  The loop over the attached peerings. \<open>network\<close> is true in the sense of Python when it
  is a string that is not empty.
\<close>

definition peering_step :: "string option \<Rightarrow> string \<Rightarrow> attached_peering \<Rightarrow> bool \<Rightarrow> bool" where
  "peering_step network name a needs_update =
     (if network \<noteq> None \<and> network \<noteq> Some [] \<and> Some (net_ip a) = network
      then (if peering_name a \<noteq> name then True else needs_update)
      else (if name \<noteq> peering_name a then True else needs_update))"

definition peering_needs_update :: "string option \<Rightarrow> string \<Rightarrow> attached_peering list \<Rightarrow> bool" where
  "peering_needs_update network name interface_peerings =
     (if interface_peerings \<noteq> []
      then fold (peering_step network name) interface_peerings False
      else True)"

definition update_bgp_peering ::
  "cache \<Rightarrow> attached_peering list \<Rightarrow> string \<Rightarrow> peering_dict \<Rightarrow> error + bool \<times> call list" where
  "update_bgp_peering cg interface_peerings name pd =
     (if peering_needs_update (pd_network pd) name interface_peerings
      then (case extpeer_of cg pd of
              None \<Rightarrow> Inl (UnboundLocalError ''extpeer'')
            | Some extpeer \<Rightarrow> Inr (True, [Add_bgp_peering name extpeer (pd_network pd)]))
      else Inr (False, []))"

section \<open>Deleting a VLAN: delete_vlan_interface\<close>

text \<open>
  A VLAN of a physical interface on the engine: its \<^verbatim>\<open>interface_id\<close> (such as
  \<^verbatim>\<open>2.4\<close>), its \<^verbatim>\<open>vlan_id\<close> and its addresses. \<open>parent_vlans\<close> is
  \<^verbatim>\<open>self._parent.data['vlanInterfaces']\<close>, the VLANs of the physical interface, the one
  to delete among them.

  \<^verbatim>\<open>vlan_str\<close> is assigned in the \<^verbatim>\<open>else\<close> branch only. When the VLAN has addresses,
  the condition of the list comprehension reads the unbound local for the first element
  of the list and raises \<^verbatim>\<open>UnboundLocalError\<close>. The result is the tuple
  \<^verbatim>\<open>(was_changed, delete_network)\<close> and the VLANs left on the parent.
\<close>

record remote_vlan =
  rv_interface_id :: string
  rv_vlan_id :: string
  rv_addresses :: "(string \<times> string) list"

definition delete_vlan_interface ::
  "remote_vlan \<Rightarrow> remote_vlan list \<Rightarrow> error + (bool \<times> bool) \<times> remote_vlan list" where
  "delete_vlan_interface self parent_vlans =
     (if rv_addresses self \<noteq> [] then
        (case parent_vlans of
           [] \<Rightarrow> Inr ((True, True), [])
         | _ # _ \<Rightarrow> Inl (UnboundLocalError ''vlan_str''))
      else
        Inr ((True, False),
             filter (\<lambda>vlan. rv_interface_id vlan \<noteq> rv_interface_id self) parent_vlans))"

text \<open>
  The branch of the VLAN loop of \<^verbatim>\<open>update_interfaces\<close> for a VLAN of the engine that
  the playbook does not define (\<^verbatim>\<open>ifs.get_vlan(vlan.vlan_id)\<close> is \<^verbatim>\<open>None\<close>): the VLAN is
  deleted, and its \<^verbatim>\<open>interface_id\<close> is appended to \<^verbatim>\<open>routes_to_remove\<close> when the second
  component of the result is true. The result is the flag \<^verbatim>\<open>updated\<close>, the VLANs left and
  \<^verbatim>\<open>routes_to_remove\<close>; \<open>None\<close> stands for the other branch, a VLAN the playbook
  defines.
\<close>

definition delete_undefined_vlan ::
  "interface_def list \<Rightarrow> remote_vlan \<Rightarrow> remote_vlan list \<Rightarrow> string list \<Rightarrow>
   (error + bool \<times> remote_vlan list \<times> string list) option" where
  "delete_undefined_vlan ifs vlan parent_vlans routes_to_remove =
     (case get_vlan ifs (SStr (rv_vlan_id vlan)) of
        Some yaml \<Rightarrow> None
      | None \<Rightarrow>
          Some (case delete_vlan_interface vlan parent_vlans of
                  Inl e \<Rightarrow> Inl e
                | Inr ((updated, network), vlans) \<Rightarrow>
                    Inr (updated, vlans,
                         if updated \<and> network then routes_to_remove @ [rv_interface_id vlan]
                         else routes_to_remove)))"

section \<open>BGP: update_bgp and the BGP block of exec_module\<close>

text \<open>
  The \<^verbatim>\<open>bgp\<close> dict of the playbook. A field is \<open>None\<close> when its key is absent.
  \<^verbatim>\<open>antispoofing_network\<close> maps an element type to a list of names;
  \<^verbatim>\<open>announced_network\<close> is a list of dicts, each from an element type to a dict with
  \<^verbatim>\<open>name\<close> and, if wanted, \<^verbatim>\<open>route_map\<close>.
\<close>

record announced_value =
  an_name :: "string option"
  an_route_map :: "string option"

record as_spec =
  as_name :: "string option"
  as_number :: "string option"
  as_comment :: "string option"

record bgp_spec =
  bgp_enabled :: "bool option"
  bgp_router_id :: "string option"
  bgp_profile :: "string option"
  antispoofing_network :: "(string \<times> string list) list"
  announced_network :: "(string \<times> announced_value) list list"
  autonomous_system :: "as_spec option"
  bgp_peering :: "(string option \<times> peering_dict) list"




text \<open>A list comprehension or loop whose body may raise: the first error ends it.\<close>

fun collect :: "('a \<Rightarrow> error + 'b) \<Rightarrow> 'a list \<Rightarrow> error + 'b list" where
  "collect f [] = Inr []"
| "collect f (x # xs) =
     (case f x of
        Inl e \<Rightarrow> Inl e
      | Inr y \<Rightarrow> (case collect f xs of Inl e \<Rightarrow> Inl e | Inr ys \<Rightarrow> Inr (y # ys)))"











definition scenario_d_cache :: cache where
  "scenario_d_cache typeof name = Some (''href/'' @ name)"



section \<open>The checks of exec_module before the first mutating call\<close>

text \<open>
  What \<^verbatim>\<open>exec_module\<close> reads of its parameters in these checks: \<^verbatim>\<open>interfaces\<close>,
  \<^verbatim>\<open>primary_mgt\<close> and \<^verbatim>\<open>bgp\<close> (\<open>None\<close> when absent or empty).
\<close>

datatype run_state = Present | Absent

record run_params =
  p_interfaces :: "interface_def list"
  p_primary_mgt :: string
  p_bgp :: "bgp_spec option"

definition node_req :: "string list" where
  "node_req = [''address'', ''network_value'', ''nodeid'']"

text \<open>\<^verbatim>\<open>all(k in node for k in node_req)\<close> for a node, which is a dict.\<close>

definition node_complete :: "node \<Rightarrow> bool" where
  "node_complete n = list_all (\<lambda>k. k \<in> fst ` set n) node_req"

text \<open>
  The loop over \<^verbatim>\<open>interface.nodes\<close>: false when some node lacks a required field. The
  attribute is a list of nodes unless the dict gave a scalar under \<^verbatim>\<open>nodes\<close>: the
  characters of a string are then the nodes, and none holds a field name; another scalar
  cannot be iterated.
\<close>

fun nodes_complete :: "attr \<Rightarrow> error + bool" where
  "nodes_complete (ANodes ns) = Inr (list_all node_complete ns)"
| "nodes_complete (AScalar (SStr s)) = Inr (s = [])"
| "nodes_complete (AScalar _) = Inl (TypeError ''not iterable'')"

text \<open>\<^verbatim>\<open>len(self.nodes)\<close>, which decides the truth value of a \<^verbatim>\<open>YamlInterface\<close>.\<close>

fun py_len :: "attr \<Rightarrow> error + nat" where
  "py_len (ANodes ns) = Inr (length ns)"
| "py_len (AScalar (SStr s)) = Inr (length s)"
| "py_len (AScalar _) = Inl (TypeError ''len'')"

fun check_interfaces :: "obj list \<Rightarrow> error + unit" where
  "check_interfaces [] = Inr ()"
| "check_interfaces (interface # rest) =
     (if \<not> truthy (attr_of interface ''interface_id'') then Inl (Fail Interface_id_required)
      else
        (case nodes_complete (attr_of interface ''nodes'') of
           Inl e \<Rightarrow> Inl e
         | Inr False \<Rightarrow>
             Inl (Fail (Node_missing_field
                    (attr_of interface ''interface_id'', attr_of interface ''vlan_id'')))
         | Inr True \<Rightarrow> check_interfaces rest))"

text \<open>
  The block under \<^verbatim>\<open>if not engine\<close>: at least one interface, the loop of checks, and
  the management interface, which must be found and be true (have a node).
\<close>

definition validate_interfaces :: "interface_def list \<Rightarrow> string \<Rightarrow> error + unit" where
  "validate_interfaces ds primary_mgt =
     (if ds = [] then Inl (Fail No_interface_given)
      else
        (case check_interfaces (Interfaces_iter ds) of
           Inl e \<Rightarrow> Inl e
         | Inr _ \<Rightarrow>
             (case Interfaces_get ds (SStr primary_mgt) of
                None \<Rightarrow> Inl (Fail (Management_not_defined primary_mgt))
              | Some mgmt_interface \<Rightarrow>
                  (case py_len (attr_of mgmt_interface ''nodes'') of
                     Inl e \<Rightarrow> Inl e
                   | Inr n \<Rightarrow>
                       (if n = 0 then Inl (Fail (Management_not_defined primary_mgt))
                        else Inr ())))))"

text \<open>
  The checks of the \<^verbatim>\<open>bgp\<close> dict. Modelled from the spec: \<^verbatim>\<open>cache.add\<close> looks
  every name up and collects the ones the server does not have in \<^verbatim>\<open>cache.missing\<close>;
  \<open>unresolved\<close> says whether that list is not empty.
\<close>

definition valid_types :: "string list" where
  "valid_types = [''network'', ''group'', ''host'']"

definition unresolved :: "cache \<Rightarrow> (string \<times> string list) list \<Rightarrow> bool" where
  "unresolved cg entries =
     list_ex (\<lambda>(typeof, names). list_ex (\<lambda>name. cg typeof name = None) names) entries"

definition validate_antispoofing_network :: "(string \<times> string list) list \<Rightarrow> error + unit" where
  "validate_antispoofing_network s =
     (case find (\<lambda>(typeof, values). typeof \<notin> set valid_types) s of
        Some (typeof, values) \<Rightarrow> Inl (Fail (Invalid_antispoofing_type typeof))
      | None \<Rightarrow> Inr ())"

text \<open>
  \<^verbatim>\<open>validate_and_extract_announced\<close>: the names to look up, by type, with the route
  maps under the type \<^verbatim>\<open>route_map\<close>.
\<close>

fun extract_announced :: "(string \<times> announced_value) list \<Rightarrow> error + (string \<times> string list) list" where
  "extract_announced [] = Inr []"
| "extract_announced ((typeof, dict_value) # rest) =
     (if typeof \<notin> set valid_types then Inl (Fail (Invalid_announced_type typeof))
      else
        (case an_name dict_value of
           None \<Rightarrow> Inl (Fail Announced_requires_name)
         | Some name \<Rightarrow>
             (case extract_announced rest of
                Inl e \<Rightarrow> Inl e
              | Inr for_cache \<Rightarrow>
                  Inr ((case an_route_map dict_value of
                          None \<Rightarrow> []
                        | Some rm \<Rightarrow> [(''route_map'', [rm])]) @
                       (typeof, [name]) # for_cache))))"

definition peering_entries :: "string option \<times> peering_dict \<Rightarrow> error + (string \<times> string list) list" where
  "peering_entries peer =
     (if fst peer = None then Inl (Fail Peering_requires_name)
      else
        (case pd_external_bgp_peer (snd peer) of
           Some ext \<Rightarrow> Inr [(''external_bgp_peer'', [ext])]
         | None \<Rightarrow>
             (case pd_engine (snd peer) of
                Some eng \<Rightarrow> Inr [(''single_fw,fw_cluster'', [eng])]
              | None \<Rightarrow> Inl (Fail Peering_requires_next_hop))))"

definition validate_bgp :: "cache \<Rightarrow> bgp_spec \<Rightarrow> error + unit" where
  "validate_bgp cg b =
     (case validate_antispoofing_network (antispoofing_network b) of
        Inl e \<Rightarrow> Inl e
      | Inr _ \<Rightarrow>
     if unresolved cg (antispoofing_network b) then Inl (Fail Missing_antispoofing_elements)
     else
     (case extract_announced (concat (announced_network b)) of
        Inl e \<Rightarrow> Inl e
      | Inr announced_networks \<Rightarrow>
     if unresolved cg announced_networks then Inl (Fail Missing_announced_elements)
     else
     (case autonomous_system b of
        None \<Rightarrow> Inl (TypeError ''not iterable'')
      | Some as_system \<Rightarrow>
     if as_name as_system = None \<or> as_number as_system = None
     then Inl (Fail Autonomous_system_requires_name_and_number)
     else
     (case collect peering_entries (bgp_peering b) of
        Inl e \<Rightarrow> Inl e
      | Inr peers \<Rightarrow>
     if unresolved cg (concat peers) then Inl (Fail Missing_peering_elements)
     else Inr ()))))"

text \<open>
  \<^verbatim>\<open>exec_module\<close> from its start to the \<^verbatim>\<open>try\<close> statement: \<open>engine\<close> says whether
  \<^verbatim>\<open>fetch_element\<close> found the cluster. Nothing is sent to the server here but lookups;
  every mutating call of \<^verbatim>\<open>exec_module\<close> comes after it, so a run that fails here has
  changed nothing.
\<close>

definition exec_module_checks :: "run_state \<Rightarrow> bool \<Rightarrow> cache \<Rightarrow> run_params \<Rightarrow> error + unit" where
  "exec_module_checks state engine cg p =
     (if state = Present then
        (case (if \<not> engine then validate_interfaces (p_interfaces p) (p_primary_mgt p)
               else Inr ()) of
           Inl e \<Rightarrow> Inl e
         | Inr _ \<Rightarrow>
             (case p_bgp p of
                None \<Rightarrow> Inr ()
              | Some b \<Rightarrow>
                  (if (case bgp_enabled b of None \<Rightarrow> True | Some v \<Rightarrow> v) then validate_bgp cg b
                   else Inr ())))
      else Inr ())"

text \<open>
  Replacing the values of the nodes of an interface definition: \<open>g\<close> gives the new value
  of a key from the old one.
\<close>

definition map_node_values :: "(string \<Rightarrow> scalar \<Rightarrow> scalar) \<Rightarrow> interface_def \<Rightarrow> interface_def" where
  "map_node_values g d =
     d\<lparr>nodes_item := map_option (map (map (\<lambda>(k, v). (k, g k v)))) (nodes_item d)\<rparr>"

text \<open>The same replacement on the \<^verbatim>\<open>nodes\<close> attribute of an interface object.\<close>

fun map_nodes_attr :: "(string \<Rightarrow> scalar \<Rightarrow> scalar) \<Rightarrow> attr \<Rightarrow> attr" where
  "map_nodes_attr g (ANodes ns) = ANodes (map (map (\<lambda>(k, v). (k, g k v))) ns)"
| "map_nodes_attr g (AScalar s) = AScalar s"




text \<open>A playbook whose only interface has two nodes with the same \<^verbatim>\<open>nodeid\<close>.\<close>

definition duplicate_nodeid_params :: run_params where
  "duplicate_nodeid_params =
     \<lparr>p_interfaces =
        [\<lparr>scalar_items = [(''interface_id'', SInt 1)],
          nodes_item =
            Some [[(''address'', SStr ''1.1.1.1''), (''network_value'', SStr ''1.1.1.0/24''),
                   (''nodeid'', SInt 1)],
                  [(''address'', SStr ''1.1.1.2''), (''network_value'', SStr ''1.1.1.0/24''),
                   (''nodeid'', SInt 1)]]\<rparr>],
      p_primary_mgt = ''1'', p_bgp = None\<rparr>"


section \<open>Properties of the desired-state model\<close>

lemma map_of_fold_store_item_other:
  "k \<notin> fst ` set its \<Longrightarrow> map_of (fold store_item its ob) k = map_of ob k"
  by (induction its arbitrary: ob) (auto simp: store_item_def setattr_def update_conv')

lemma map_of_store_item:
  "k \<noteq> ''nodes'' \<Longrightarrow> map_of (store_item (k, v) ob) k = Some (AScalar (SStr (py_str v)))"
  by (simp add: store_item_def setattr_def update_conv')

lemma map_of_fold_store_item:
  "distinct (map fst its) \<Longrightarrow> (k, v) \<in> set its \<Longrightarrow> k \<noteq> ''nodes'' \<Longrightarrow>
   map_of (fold store_item its ob) k = Some (AScalar (SStr (py_str v)))"
proof (induction its arbitrary: ob)
  case Nil
  then show ?case by simp
next
  case (Cons it its)
  show ?case
  proof (cases "it = (k, v)")
    case True
    with Cons.prems have "k \<notin> fst ` set its" by auto
    then have "map_of (fold store_item its (store_item it ob)) k = map_of (store_item it ob) k"
      by (rule map_of_fold_store_item_other)
    then show ?thesis using True Cons.prems(3)
      by (simp add: map_of_store_item)
  next
    case False
    with Cons show ?thesis by auto
  qed
qed

lemma map_of_YamlInterface:
  assumes "distinct (map fst (scalar_items d))" and "(k, v) \<in> set (scalar_items d)"
    and "k \<in> set scalar_field_names"
  shows "map_of (YamlInterface d) k = Some (AScalar (SStr (py_str v)))"
proof -
  from assms(3) have k: "k \<noteq> ''nodes''" "k \<noteq> ''cvi_mode''"
    by (auto simp: scalar_field_names_def)
  have "map_of (fold store_item (scalar_items d) init_attrs) k = Some (AScalar (SStr (py_str v)))"
    using assms(1,2) k(1) by (rule map_of_fold_store_item)
  with k show ?thesis
    by (simp add: YamlInterface_def Let_def setattr_def update_conv' split: option.splits)
qed

lemma fold_store_item_keeps:
  "map_of ob k \<noteq> None \<Longrightarrow> map_of (fold store_item its ob) k \<noteq> None"
  by (induction its arbitrary: ob) (auto simp: store_item_def setattr_def update_conv')

lemma YamlInterface_preset:
  assumes "k \<in> fst ` set init_attrs"
  shows "map_of (YamlInterface d) k \<noteq> None"
proof -
  from assms have "map_of init_attrs k \<noteq> None"
    by (auto simp: init_attrs_def)
  then have "map_of (fold store_item (scalar_items d) init_attrs) k \<noteq> None"
    by (rule fold_store_item_keeps)
  then show ?thesis
    by (simp add: YamlInterface_def Let_def setattr_def update_conv' split: option.splits)
qed

lemma getattr_preset:
  assumes "ob \<in> set (Interfaces_iter ds)" and "k \<in> fst ` set init_attrs"
  shows "getattr ob k = Inr (attr_of ob k)"
proof -
  from assms(1) obtain e where "ob = YamlInterface e" by (auto simp: Interfaces_iter_def)
  with YamlInterface_preset [OF assms(2), of e] show ?thesis
    by (auto simp: getattr_def attr_of_def)
qed

lemma find_first_match:
  assumes "x \<in> set xs" and "P x"
  shows "\<exists>y. find P xs = Some y \<and> P y \<and> y \<in> set xs"
proof (cases "find P xs")
  case None
  with assms show ?thesis by (auto simp: find_None_iff)
next
  case (Some y)
  then show ?thesis by (auto simp: find_Some_iff)
qed

text \<open>
  Claim C10. The six scalar fields of an interface definition (\<open>scalar_field_names\<close>)
  are stored as \<^verbatim>\<open>str(value)\<close> by the constructor, whatever scalar the playbook
  gives. Hence the lookups compare strings: for an interface definition \<open>d\<close> of the
  list \<open>ds\<close> whose \<^verbatim>\<open>interface_id\<close> is \<open>v\<close> (an integer, say), \<^verbatim>\<open>Interfaces.get\<close>
  with the string form of \<open>v\<close> and with \<open>v\<close> itself both return the first interface
  whose identifier is that string; and when its \<^verbatim>\<open>vlan_id\<close> is \<open>v\<close>,
  \<^verbatim>\<open>get_vlan\<close> with the string form of \<open>v\<close> returns an interface with that VLAN
  identifier. The keys of a dict are distinct.
\<close>

theorem scalar_fields_are_strings:
  assumes "d \<in> set ds" and "distinct (map fst (scalar_items d))"
    and "(k, v) \<in> set (scalar_items d)" and "k \<in> set scalar_field_names"
  shows "getattr (YamlInterface d) k = Inr (AScalar (SStr (py_str v))) \<and>
    (if k = ''interface_id''
     then \<exists>ob. Interfaces_get ds (SStr (py_str v)) = Some ob \<and> Interfaces_get ds v = Some ob \<and>
            ob \<in> set (Interfaces_iter ds) \<and>
            getattr ob ''interface_id'' = Inr (AScalar (SStr (py_str v)))
     else True) \<and>
    (if k = ''vlan_id''
     then \<exists>ob. get_vlan ds (SStr (py_str v)) = Some ob \<and> ob \<in> set (Interfaces_iter ds) \<and>
            getattr ob ''vlan_id'' = Inr (AScalar (SStr (py_str v)))
     else True)"
proof -
  have m: "map_of (YamlInterface d) k = Some (AScalar (SStr (py_str v)))"
    using assms(2-4) by (rule map_of_YamlInterface)
  have mem: "YamlInterface d \<in> set (Interfaces_iter ds)"
    using assms(1) by (simp add: Interfaces_iter_def)
  have a: "getattr (YamlInterface d) k = Inr (AScalar (SStr (py_str v)))"
    using m by (simp add: getattr_def)
  have b: "\<exists>ob. Interfaces_get ds (SStr (py_str v)) = Some ob \<and> Interfaces_get ds v = Some ob \<and>
            ob \<in> set (Interfaces_iter ds) \<and>
            getattr ob ''interface_id'' = Inr (AScalar (SStr (py_str v)))"
    if "k = ''interface_id''"
  proof -
    let ?P = "\<lambda>itf. attr_of itf ''interface_id'' = AScalar (SStr (py_str v))"
    have "?P (YamlInterface d)" using m that by (simp add: attr_of_def)
    with mem obtain y where y: "find ?P (Interfaces_iter ds) = Some y" "?P y"
      "y \<in> set (Interfaces_iter ds)"
      using find_first_match [of "YamlInterface d" "Interfaces_iter ds" ?P] by blast
    have "getattr y ''interface_id'' = Inr (attr_of y ''interface_id'')"
      using y(3) by (rule getattr_preset) (simp add: init_attrs_def)
    with y show ?thesis by (auto simp: Interfaces_get_def)
  qed
  have c: "\<exists>ob. get_vlan ds (SStr (py_str v)) = Some ob \<and> ob \<in> set (Interfaces_iter ds) \<and>
            getattr ob ''vlan_id'' = Inr (AScalar (SStr (py_str v)))"
    if "k = ''vlan_id''"
  proof -
    let ?P = "\<lambda>itf. attr_of itf ''vlan_id'' = AScalar (SStr (py_str v))"
    have "?P (YamlInterface d)" using m that by (simp add: attr_of_def)
    with mem obtain y where y: "find ?P (Interfaces_iter ds) = Some y" "?P y"
      "y \<in> set (Interfaces_iter ds)"
      using find_first_match [of "YamlInterface d" "Interfaces_iter ds" ?P] by blast
    have "getattr y ''vlan_id'' = Inr (attr_of y ''vlan_id'')"
      using y(3) by (rule getattr_preset) (simp add: init_attrs_def)
    with y show ?thesis by (auto simp: get_vlan_def)
  qed
  from a b c show ?thesis by simp
qed


theorem scalar_fields_are_strings_witness:
  "getattr (YamlInterface \<lparr>scalar_items = [(''interface_id'', SInt 2), (''vlan_id'', SInt 3)], nodes_item = None\<rparr>)
     ''vlan_id'' = Inr (AScalar (SStr ''3'')) \<and>
   (\<exists>ob. get_vlan [\<lparr>scalar_items = [(''interface_id'', SInt 2), (''vlan_id'', SInt 3)], nodes_item = None\<rparr>]
      (SStr ''3'') = Some ob)"
  using scalar_fields_are_strings [of "\<lparr>scalar_items = [(''interface_id'', SInt 2), (''vlan_id'', SInt 3)], nodes_item = None\<rparr>"
     "[\<lparr>scalar_items = [(''interface_id'', SInt 2), (''vlan_id'', SInt 3)], nodes_item = None\<rparr>]"
     "''vlan_id''" "SInt 3"]
  by (auto simp: scalar_field_names_def dec_int_def dec_nat.simps digit_char_def)

text \<open>
  Claim C9. When \<^verbatim>\<open>is_vlan\<close> is false for an interface object (no \<^verbatim>\<open>vlan_id\<close>
  was given, or an empty one), \<^verbatim>\<open>as_dict\<close> returns the object's own attribute dict
  with \<^verbatim>\<open>vlan_id\<close> deleted. On the object as the call leaves it, reading
  \<^verbatim>\<open>vlan_id\<close>, \<^verbatim>\<open>is_vlan\<close>, \<^verbatim>\<open>__repr__\<close> and a second \<^verbatim>\<open>as_dict\<close> all raise
  \<^verbatim>\<open>AttributeError\<close>: the second serialization does not return the same dict.
\<close>

theorem as_dict_deletes_vlan_id:
  assumes "is_vlan ob = Inr False"
  shows "\<exists>ob'. as_dict ob = Inr (ob', ob') \<and> ob' = AList.delete ''vlan_id'' ob \<and>
           map_of ob' ''vlan_id'' = None \<and>
           getattr ob' ''vlan_id'' = Inl (AttributeError ''vlan_id'') \<and>
           is_vlan ob' = Inl (AttributeError ''vlan_id'') \<and>
           as_dict ob' = Inl (AttributeError ''vlan_id'') \<and>
           (\<exists>e. repr_interface ob' = Inl e) \<and>
           (getattr ob' ''interface_id'' = getattr ob ''interface_id'')"
proof -
  from assms obtain v where v: "map_of ob ''vlan_id'' = Some v"
    by (auto simp: is_vlan_def getattr_def split: option.splits)
  let ?ob' = "AList.delete ''vlan_id'' ob"
  have 1: "as_dict ob = Inr (?ob', ?ob')"
    using assms v by (simp add: as_dict_def delattr_def)
  have 2: "map_of ?ob' ''vlan_id'' = None"
    by (simp add: delete_conv')
  have 3: "getattr ?ob' ''vlan_id'' = Inl (AttributeError ''vlan_id'')"
    using 2 by (simp add: getattr_def)
  have 4: "is_vlan ?ob' = Inl (AttributeError ''vlan_id'')"
    using 3 by (simp add: is_vlan_def)
  have 5: "as_dict ?ob' = Inl (AttributeError ''vlan_id'')"
    using 4 by (simp add: as_dict_def)
  have 6: "\<exists>e. repr_interface ?ob' = Inl e"
    using 3 by (auto simp: repr_interface_def split: sum.splits)
  have 7: "getattr ?ob' ''interface_id'' = getattr ob ''interface_id''"
    by (simp add: getattr_def delete_conv')
  from 1 2 3 4 5 6 7 show ?thesis by blast
qed

theorem as_dict_deletes_vlan_id_witness:
  "is_vlan (YamlInterface \<lparr>scalar_items = [(''interface_id'', SInt 1)], nodes_item = None\<rparr>) = Inr False \<and>
   (\<exists>ob'. as_dict (YamlInterface \<lparr>scalar_items = [(''interface_id'', SInt 1)], nodes_item = None\<rparr>)
       = Inr (ob', ob') \<and> as_dict ob' = Inl (AttributeError ''vlan_id''))"
proof -
  have h: "is_vlan (YamlInterface \<lparr>scalar_items = [(''interface_id'', SInt 1)], nodes_item = None\<rparr>) = Inr False"
    by (simp add: YamlInterface_def is_vlan_def getattr_def setattr_def store_item_def init_attrs_def)
  from as_dict_deletes_vlan_id [OF h] h show ?thesis by blast
qed

section \<open>Properties of update_general\<close>

lemma sym_diff_empty_iff: "sym_diff A B = {} \<longleftrightarrow> A = B"
  by (auto simp: sym_diff_def)

lemma snd_toggle:
  "snd (toggle d s en dis st) =
     snd st @ (if d = Some True \<and> \<not> s then [en] else if d = Some False \<and> s then [dis] else [])"
  by (cases d) (auto simp: toggle_def)

lemma fst_toggle:
  "fst (toggle d s en dis st) = (fst st \<or> (d = Some True \<and> \<not> s) \<or> (d = Some False \<and> s))"
  by (cases d) (auto simp: toggle_def)

lemma snd_update_dns:
  "snd (update_dns desired current st) =
     snd st @ (if desired \<noteq> [] \<and> set current \<noteq> set desired
               then [Dns_reset, Dns_add desired] else [])"
  by (simp add: update_dns_def sym_diff_empty_iff)

lemma fst_update_dns:
  "fst (update_dns desired current st) =
     (fst st \<or> (desired \<noteq> [] \<and> set current \<noteq> set desired))"
  by (simp add: update_dns_def sym_diff_empty_iff)

lemma snd_update_general:
  "snd (update_general p e) =
     toggle_calls p e @
     (if domain_server_address p \<noteq> [] \<and> set (dns e) \<noteq> set (domain_server_address p)
      then [Dns_reset, Dns_add (domain_server_address p)] else [])"
  by (simp add: update_general_def snd_update_dns snd_toggle toggle_calls_def)

lemma fst_update_general: "fst (update_general p e) = (snd (update_general p e) \<noteq> [])"
  unfolding snd_update_general
  by (simp add: update_general_def fst_update_dns fst_toggle toggle_calls_def)

lemma no_dns_in_toggle_calls: "filter is_dns_call (toggle_calls p e) = []"
  by (simp add: toggle_calls_def)

text \<open>
  Claim C8, as stated, fails where the playbook leaves a feature out: the module declares
  \<^verbatim>\<open>default=False\<close> for it, so \<^verbatim>\<open>update_general\<close> sees \<^verbatim>\<open>False\<close> and disables a
  feature that is on. Here \<^verbatim>\<open>default_nat\<close> is not given and NAT is enabled on the engine.
\<close>

theorem unspecified_toggle_counterexample:
  "update_general
     (module_params \<lparr>pb_default_nat = None, pb_file_reputation = None, pb_antivirus = None,
        pb_domain_server_address = None\<rparr>)
     \<lparr>default_nat_status = True, file_reputation_status = False, antivirus_status = False,
        dns = []\<rparr> = (True, [DefaultNat_disable])"
  by (simp add: update_general_def module_params_def arg_default_def toggle_def update_dns_def)

text \<open>
  Claim C8, amended. For each of \<^verbatim>\<open>default_nat\<close>, \<^verbatim>\<open>file_reputation\<close> and
  \<^verbatim>\<open>antivirus\<close>, on its own: the enable call is issued exactly when the value is true
  and the status is off, the disable call exactly when the value is false and the status
  is on, and no call of the feature otherwise (also when the value is \<^verbatim>\<open>None\<close>); no
  call is issued twice. A feature the playbook leaves out reaches the function as
  \<^verbatim>\<open>False\<close>, not as \<^verbatim>\<open>None\<close>.
\<close>

theorem update_general_toggles:
  "(DefaultNat_enable \<in> set (snd (update_general p e)) \<longleftrightarrow>
      default_nat p = Some True \<and> \<not> default_nat_status e) \<and>
   (DefaultNat_disable \<in> set (snd (update_general p e)) \<longleftrightarrow>
      default_nat p = Some False \<and> default_nat_status e) \<and>
   (FileReputation_enable \<in> set (snd (update_general p e)) \<longleftrightarrow>
      file_reputation p = Some True \<and> \<not> file_reputation_status e) \<and>
   (FileReputation_disable \<in> set (snd (update_general p e)) \<longleftrightarrow>
      file_reputation p = Some False \<and> file_reputation_status e) \<and>
   (Antivirus_enable \<in> set (snd (update_general p e)) \<longleftrightarrow>
      antivirus p = Some True \<and> \<not> antivirus_status e) \<and>
   (Antivirus_disable \<in> set (snd (update_general p e)) \<longleftrightarrow>
      antivirus p = Some False \<and> antivirus_status e) \<and>
   distinct (snd (update_general p e)) \<and>
   default_nat (module_params pb) = Some (pb_default_nat pb = Some True) \<and>
   file_reputation (module_params pb) = Some (pb_file_reputation pb = Some True) \<and>
   antivirus (module_params pb) = Some (pb_antivirus pb = Some True)"
  unfolding snd_update_general
  by (auto simp: toggle_calls_def module_params_def arg_default_def split: option.splits)

text \<open>
  Claim C4, as stated, fails for the empty desired list: the block is guarded by
  \<^verbatim>\<open>if self.domain_server_address\<close>, so with one DNS entry on the engine and none
  desired the symmetric difference is not empty, yet nothing is issued and
  \<^verbatim>\<open>changed\<close> stays false.
\<close>

theorem empty_desired_dns_counterexample:
  "sym_diff (set [''8.8.4.4'']) (set ([] :: string list)) \<noteq> {} \<and>
   update_general
     \<lparr>default_nat = Some False, file_reputation = Some False, antivirus = Some False,
        domain_server_address = []\<rparr>
     \<lparr>default_nat_status = False, file_reputation_status = False, antivirus_status = False,
        dns = [''8.8.4.4'']\<rparr> = (False, [])"
  by (simp add: update_general_def toggle_def update_dns_def sym_diff_def)

text \<open>
  Claim C4, amended. When the desired DNS list is not empty and its symmetric difference
  with the current entries is not empty, \<^verbatim>\<open>update_general\<close> resets the entries, adds the
  whole desired list and reports \<^verbatim>\<open>changed\<close>. Otherwise (the two sets are equal, in
  any order, or the desired list is empty) no DNS call is issued and \<^verbatim>\<open>changed\<close> is
  true only if one of the three feature blocks issued a call.
\<close>

theorem dns_replace_on_diff:
  "(if domain_server_address p \<noteq> [] \<and>
       sym_diff (set (dns e)) (set (domain_server_address p)) \<noteq> {}
    then fst (update_general p e) \<and>
         filter is_dns_call (snd (update_general p e)) =
           [Dns_reset, Dns_add (domain_server_address p)]
    else filter is_dns_call (snd (update_general p e)) = [] \<and>
         snd (update_general p e) = toggle_calls p e \<and>
         fst (update_general p e) = (toggle_calls p e \<noteq> []))"
  unfolding fst_update_general unfolding snd_update_general
  by (simp add: sym_diff_empty_iff no_dns_in_toggle_calls)

section \<open>Properties of remove_routes\<close>

lemma set_remove_routes:
  "set (remove_routes routing ids) = (\<Union>i \<in> set ids. \<Union>r \<in> set routing. set (remove_route i r))"
  by (simp add: remove_routes_def)

lemma Route_delete_in_remove_route:
  "Route_delete r \<in> set (remove_route i r') \<longleftrightarrow>
     r' = r \<and> route_name r = vlan_route_name i \<and> \<not> length (networks r) > 1"
  by (auto simp: remove_route_def)

lemma Network_delete_in_remove_route:
  "Network_delete r n \<in> set (remove_route i r') \<longleftrightarrow>
     r' = r \<and> route_name r = vlan_route_name i \<and> length (networks r) > 1 \<and>
     n \<in> set (networks r) \<and> invalid n"
  by (auto simp: remove_route_def)

text \<open>
  Claim C2. For every interface identifier of \<^verbatim>\<open>routes_to_remove\<close> and every routing
  entry named \<^verbatim>\<open>VLAN\<close> plus that identifier: when the entry has more than one network,
  the networks of the entry that are deleted are exactly those flagged invalid, and the
  entry itself is not deleted; otherwise the entry is deleted as a whole, and none of its
  networks separately.
\<close>

theorem remove_routes_precise:
  assumes "int_id \<in> set routes_to_remove" and "r \<in> set routing"
    and "route_name r = vlan_route_name int_id"
  shows "if length (networks r) > 1
         then (\<forall>n. Network_delete r n \<in> set (remove_routes routing routes_to_remove) \<longleftrightarrow>
                  n \<in> set (networks r) \<and> invalid n) \<and>
              Route_delete r \<notin> set (remove_routes routing routes_to_remove)
         else Route_delete r \<in> set (remove_routes routing routes_to_remove) \<and>
              (\<forall>n. Network_delete r n \<notin> set (remove_routes routing routes_to_remove))"
  using assms
  by (auto simp: set_remove_routes Route_delete_in_remove_route Network_delete_in_remove_route)

theorem remove_routes_precise_witness:
  "Network_delete
     \<lparr>route_href = ''r1'', route_name = ''VLAN 2.3'',
        networks = [\<lparr>network_href = ''n1'', invalid = True\<rparr>,
                    \<lparr>network_href = ''n2'', invalid = False\<rparr>]\<rparr>
     \<lparr>network_href = ''n1'', invalid = True\<rparr>
     \<in> set (remove_routes
          [\<lparr>route_href = ''r1'', route_name = ''VLAN 2.3'',
             networks = [\<lparr>network_href = ''n1'', invalid = True\<rparr>,
                         \<lparr>network_href = ''n2'', invalid = False\<rparr>]\<rparr>] [''2.3'']) \<and>
   Network_delete
     \<lparr>route_href = ''r1'', route_name = ''VLAN 2.3'',
        networks = [\<lparr>network_href = ''n1'', invalid = True\<rparr>,
                    \<lparr>network_href = ''n2'', invalid = False\<rparr>]\<rparr>
     \<lparr>network_href = ''n2'', invalid = False\<rparr>
     \<notin> set (remove_routes
          [\<lparr>route_href = ''r1'', route_name = ''VLAN 2.3'',
             networks = [\<lparr>network_href = ''n1'', invalid = True\<rparr>,
                         \<lparr>network_href = ''n2'', invalid = False\<rparr>]\<rparr>] [''2.3''])"
  using remove_routes_precise [of "''2.3''" "[''2.3'']"
      "\<lparr>route_href = ''r1'', route_name = ''VLAN 2.3'',
         networks = [\<lparr>network_href = ''n1'', invalid = True\<rparr>,
                     \<lparr>network_href = ''n2'', invalid = False\<rparr>]\<rparr>"
      "[\<lparr>route_href = ''r1'', route_name = ''VLAN 2.3'',
          networks = [\<lparr>network_href = ''n1'', invalid = True\<rparr>,
                      \<lparr>network_href = ''n2'', invalid = False\<rparr>]\<rparr>]"]
  by (simp add: vlan_route_name_def)

section \<open>Properties of update_bgp_peering\<close>

text \<open>
  Both branches of the loop body compare the names only, so the network of the entry
  plays no part: an attachment is issued when nothing is attached to the interface or
  some attached peering has another name.
\<close>

lemma fold_peering_step:
  "fold (peering_step network name) ps b \<longleftrightarrow> b \<or> (\<exists>a \<in> set ps. peering_name a \<noteq> name)"
  by (induction ps arbitrary: b) (auto simp: peering_step_def)

lemma peering_needs_update_iff:
  "peering_needs_update network name ps \<longleftrightarrow> ps = [] \<or> (\<exists>a \<in> set ps. peering_name a \<noteq> name)"
  by (simp add: peering_needs_update_def fold_peering_step)

text \<open>
  Claim C7 at a failing input. The routing node of the interface has the peerings
  \<^verbatim>\<open>peerA\<close> and \<^verbatim>\<open>peerB\<close> on the network \<^verbatim>\<open>10.0.0.0/24\<close>, and the playbook asks for
  \<^verbatim>\<open>peerA\<close> on that network. The peering is attached for the same network and name,
  yet the function attaches it again and reports a change, against its docstring
  (\<^verbatim>\<open>Only update if the peering isn't already there\<close>).
\<close>

theorem attached_peering_is_attached_again:
  "update_bgp_peering (\<lambda>t n. Some (''href/'' @ n))
     [\<lparr>net_ip = ''10.0.0.0/24'', peering_name = ''peerA''\<rparr>,
      \<lparr>net_ip = ''10.0.0.0/24'', peering_name = ''peerB''\<rparr>]
     ''peerA''
     \<lparr>pd_external_bgp_peer = Some ''upstream'', pd_engine = None,
        pd_interface_id = Some ''1'', pd_network = Some ''10.0.0.0/24''\<rparr>
   = Inr (True, [Add_bgp_peering ''peerA'' (Some ''href/upstream'') (Some ''10.0.0.0/24'')])"
  by (simp add: update_bgp_peering_def peering_needs_update_def peering_step_def extpeer_of_def
      cache_get_def)

text \<open>
  The other direction: \<^verbatim>\<open>peerA\<close> is attached on one network only, the playbook asks
  for it on another network, and nothing is attached.
\<close>

lemma peering_on_other_network_is_skipped:
  "update_bgp_peering (\<lambda>t n. Some (''href/'' @ n))
     [\<lparr>net_ip = ''10.0.0.0/24'', peering_name = ''peerA''\<rparr>]
     ''peerA''
     \<lparr>pd_external_bgp_peer = Some ''upstream'', pd_engine = None,
        pd_interface_id = Some ''1'', pd_network = Some ''10.9.9.0/24''\<rparr>
   = Inr (False, [])"
  by (simp add: update_bgp_peering_def peering_needs_update_def peering_step_def extpeer_of_def
      cache_get_def)

section \<open>Properties of delete_vlan_interface\<close>

lemma delete_vlan_interface_with_addresses:
  "rv_addresses self \<noteq> [] \<Longrightarrow> parent_vlans \<noteq> [] \<Longrightarrow>
   delete_vlan_interface self parent_vlans = Inl (UnboundLocalError ''vlan_str'')"
  by (cases parent_vlans) (simp_all add: delete_vlan_interface_def)

lemma delete_vlan_interface_without_addresses:
  "rv_addresses self = [] \<Longrightarrow>
   delete_vlan_interface self parent_vlans =
     Inr ((True, False),
          filter (\<lambda>vlan. rv_interface_id vlan \<noteq> rv_interface_id self) parent_vlans)"
  by (simp add: delete_vlan_interface_def)

text \<open>
  Claim C5 at a failing input. The engine has the VLANs 3 and 4 on interface 2, both with
  an address; the playbook defines VLAN 3 only. For VLAN 4 the loop of
  \<^verbatim>\<open>update_interfaces\<close> calls \<^verbatim>\<open>delete_vlan_interface\<close>, which raises
  \<^verbatim>\<open>UnboundLocalError\<close>: the VLAN is not deleted and no route is recorded.
\<close>

theorem delete_vlan_with_addresses_raises:
  "delete_undefined_vlan
     [\<lparr>scalar_items = [(''interface_id'', SInt 2), (''vlan_id'', SInt 3)], nodes_item = None\<rparr>]
     \<lparr>rv_interface_id = ''2.4'', rv_vlan_id = ''4'', rv_addresses = [(''4.4.4.1'', ''4.4.4.0/24'')]\<rparr>
     [\<lparr>rv_interface_id = ''2.3'', rv_vlan_id = ''3'', rv_addresses = [(''3.3.3.1'', ''3.3.3.0/24'')]\<rparr>,
      \<lparr>rv_interface_id = ''2.4'', rv_vlan_id = ''4'', rv_addresses = [(''4.4.4.1'', ''4.4.4.0/24'')]\<rparr>]
     []
   = Some (Inl (UnboundLocalError ''vlan_str''))"
  by (simp add: delete_undefined_vlan_def delete_vlan_interface_def get_vlan_def
      Interfaces_iter_def YamlInterface_def store_item_def setattr_def init_attrs_def attr_of_def
      dec_int_def dec_nat.simps digit_char_def)

text \<open>The same VLAN without addresses is deleted, and no route is recorded.\<close>

lemma delete_vlan_without_addresses:
  "delete_undefined_vlan
     [\<lparr>scalar_items = [(''interface_id'', SInt 2), (''vlan_id'', SInt 3)], nodes_item = None\<rparr>]
     \<lparr>rv_interface_id = ''2.4'', rv_vlan_id = ''4'', rv_addresses = []\<rparr>
     [\<lparr>rv_interface_id = ''2.3'', rv_vlan_id = ''3'', rv_addresses = [(''3.3.3.1'', ''3.3.3.0/24'')]\<rparr>,
      \<lparr>rv_interface_id = ''2.4'', rv_vlan_id = ''4'', rv_addresses = []\<rparr>]
     []
   = Some (Inr (True, [\<lparr>rv_interface_id = ''2.3'', rv_vlan_id = ''3'', rv_addresses = [(''3.3.3.1'', ''3.3.3.0/24'')]\<rparr>], []))"
  by (simp add: delete_undefined_vlan_def delete_vlan_interface_def get_vlan_def
      Interfaces_iter_def YamlInterface_def store_item_def setattr_def init_attrs_def attr_of_def
      dec_int_def dec_nat.simps digit_char_def)

section \<open>Properties of update_bgp\<close>







section \<open>Properties of the checks of exec_module\<close>

lemma fold_store_item_nodes:
  assumes "\<exists>a. map_of ob ''nodes'' = Some a \<and> map_nodes_attr g a = a"
  shows "\<exists>a. map_of (fold store_item its ob) ''nodes'' = Some a \<and> map_nodes_attr g a = a"
  using assms
proof (induction its arbitrary: ob)
  case Nil
  then show ?case by simp
next
  case (Cons it its)
  have "\<exists>a. map_of (store_item it ob) ''nodes'' = Some a \<and> map_nodes_attr g a = a"
    using Cons.prems by (auto simp: store_item_def setattr_def update_conv')
  then show ?case using Cons.IH by simp
qed

lemma map_of_YamlInterface_map_node_values:
  "map_of (YamlInterface (map_node_values g d)) k =
     (if k = ''nodes'' then map_option (map_nodes_attr g) (map_of (YamlInterface d) k)
      else map_of (YamlInterface d) k)"
proof (cases "nodes_item d")
  case None
  have "\<exists>a. map_of (fold store_item (scalar_items d) init_attrs) ''nodes'' = Some a \<and>
            map_nodes_attr g a = a"
    by (rule fold_store_item_nodes) (simp add: init_attrs_def)
  with None show ?thesis
    by (auto simp: YamlInterface_def map_node_values_def Let_def setattr_def update_conv')
next
  case (Some ns)
  then show ?thesis
    by (simp add: YamlInterface_def map_node_values_def Let_def setattr_def update_conv')
qed

lemma attr_of_map_node_values:
  "attr_of (YamlInterface (map_node_values g d)) k =
     (if k = ''nodes'' then map_nodes_attr g (attr_of (YamlInterface d) k)
      else attr_of (YamlInterface d) k)"
proof -
  have "map_of (YamlInterface d) ''nodes'' \<noteq> None"
    by (rule YamlInterface_preset) (simp add: init_attrs_def)
  then show ?thesis
    by (auto simp: attr_of_def map_of_YamlInterface_map_node_values split: option.splits)
qed

lemma node_complete_map: "node_complete (map (\<lambda>(k, v). (k, g k v)) n) = node_complete n"
proof -
  have "fst ` set (map (\<lambda>(k, v). (k, g k v)) n) = fst ` set n"
    by force
  then show ?thesis by (simp add: node_complete_def)
qed

lemma nodes_complete_map: "nodes_complete (map_nodes_attr g a) = nodes_complete a"
  by (cases a) (simp_all add: list_all_iff node_complete_map)

lemma py_len_map: "py_len (map_nodes_attr g a) = py_len a"
  by (cases a) simp_all

lemma check_interfaces_map_node_values:
  "check_interfaces (Interfaces_iter (map (map_node_values g) ds)) =
   check_interfaces (Interfaces_iter ds)"
  by (induction ds)
    (simp_all add: Interfaces_iter_def attr_of_map_node_values nodes_complete_map
      split: sum.splits bool.splits)

lemma find_map: "find P (map f xs) = map_option f (find (P \<circ> f) xs)"
  by (induction xs) simp_all

lemma validate_interfaces_map_node_values:
  "validate_interfaces (map (map_node_values g) ds) m = validate_interfaces ds m"
proof -
  let ?P = "\<lambda>itf. attr_of itf ''interface_id'' = AScalar (SStr (py_str (SStr m)))"
  have e: "?P \<circ> (\<lambda>d. YamlInterface (map_node_values g d)) = ?P \<circ> YamlInterface"
    by (rule ext) (simp add: attr_of_map_node_values)
  have "find ?P (map (\<lambda>d. YamlInterface (map_node_values g d)) ds) =
          map_option (\<lambda>d. YamlInterface (map_node_values g d)) (find (?P \<circ> YamlInterface) ds)"
    unfolding find_map e ..
  then have "Interfaces_get (map (map_node_values g) ds) (SStr m) =
          map_option (\<lambda>d. YamlInterface (map_node_values g d)) (find (?P \<circ> YamlInterface) ds)"
    by (simp add: Interfaces_get_def Interfaces_iter_def comp_def)
  moreover have "Interfaces_get ds (SStr m) = map_option YamlInterface (find (?P \<circ> YamlInterface) ds)"
    unfolding Interfaces_get_def Interfaces_iter_def find_map by simp
  ultimately show ?thesis
    by (cases "find (?P \<circ> YamlInterface) ds")
      (simp_all add: validate_interfaces_def check_interfaces_map_node_values
        attr_of_map_node_values py_len_map split: sum.splits)
qed

text \<open>
  Claim C1, amended. The checks before the first mutating call read the nodes of an
  interface only for the keys they carry: replacing the values of the nodes (the
  \<^verbatim>\<open>nodeid\<close> among them) by any others does not change whether the run passes them, nor
  the failure it ends with. So no value of \<^verbatim>\<open>nodeid\<close>, equal to another or not, is a
  reason to reject a playbook.
\<close>

theorem checks_ignore_node_values:
  "exec_module_checks state engine cg
     (p\<lparr>p_interfaces := map (map_node_values g) (p_interfaces p)\<rparr>) =
   exec_module_checks state engine cg p"
  by (simp add: exec_module_checks_def validate_interfaces_map_node_values split: sum.splits)

text \<open>
  Claim C1, as stated, fails: for a cluster that does not exist yet, a playbook whose
  interface has two nodes with \<^verbatim>\<open>nodeid\<close> 1 passes every check.
\<close>

theorem duplicate_nodeid_passes_checks:
  "exec_module_checks Present False scenario_d_cache duplicate_nodeid_params = Inr ()"
  by (simp add: exec_module_checks_def duplicate_nodeid_params_def validate_interfaces_def
      Interfaces_iter_def Interfaces_get_def YamlInterface_def store_item_def setattr_def
      init_attrs_def attr_of_def node_complete_def node_req_def dec_int_def dec_nat.simps
      digit_char_def)







end
